theory Spec2Isabelle
  imports Main
begin

section \<open>Signed tokens: a symbolic model of the jsonwebtoken library\<close>

text \<open>
  The middleware calls \<^verbatim>\<open>jwt.verify\<close> and \<^verbatim>\<open>jwt.sign\<close> of the jsonwebtoken package,
  which is not part of the repository. The package is modelled symbolically, with
  perfect signatures: a cookie value is either a token that was signed with some secret
  over some payload, or any other string, which carries no valid signature at all.
  Every token this repository mints (login, register, refresh) has the payload
  \<^verbatim>\<open>{ id, iat, exp }\<close>, with \<^verbatim>\<open>iat\<close> and \<^verbatim>\<open>exp\<close> in seconds.
\<close>

record payload =
  payload_id :: string
  iat :: nat
  exp :: nat

datatype token =
    Opaque string
  | Signed string payload

text \<open>
  A value thrown in JavaScript is an \<^verbatim>\<open>Error\<close> object with a message, or any other value.
  The catch blocks of the middleware read
  \<^verbatim>\<open>error instanceof Error ? error.message : "Unknown error"\<close>.
\<close>

datatype thrown =
    ErrorObj string
  | NonError

fun error_message :: "thrown \<Rightarrow> string" where
  "error_message (ErrorObj m) = m"
| "error_message NonError = ''Unknown error''"

text \<open>
  \<^verbatim>\<open>jwt.verify(token, secret)\<close> at clock \<open>t\<close> (seconds): the library rejects a string
  that is no token, then a missing or empty secret, then a signature made with another
  secret, then an expired token (\<^verbatim>\<open>clockTimestamp >= payload.exp\<close>); otherwise it
  returns the payload. The library has several messages for strings that are no token;
  the model reports all of them as \<^verbatim>\<open>jwt malformed\<close>.
\<close>

fun jwt_verify :: "token \<Rightarrow> string \<Rightarrow> nat \<Rightarrow> thrown + payload" where
  "jwt_verify (Opaque s) secret t = Inl (ErrorObj ''jwt malformed'')"
| "jwt_verify (Signed k p) secret t =
     (if secret = [] then Inl (ErrorObj ''secret or public key must be provided'')
      else if k \<noteq> secret then Inl (ErrorObj ''invalid signature'')
      else if exp p \<le> t then Inl (ErrorObj ''jwt expired'')
      else Inr p)"

text \<open>
  \<^verbatim>\<open>jwt.sign({ id }, secret, { expiresIn })\<close> at clock \<open>t\<close> (seconds), with the lifetime
  in seconds (\<^verbatim>\<open>"1h"\<close> is 3600): the library throws on a missing or empty secret and
  otherwise signs \<^verbatim>\<open>{ id, iat: t, exp: t + expiresIn }\<close>.
\<close>

definition jwt_sign :: "string \<Rightarrow> string \<Rightarrow> nat \<Rightarrow> nat \<Rightarrow> thrown + token" where
  "jwt_sign uid secret expiresIn t =
     (if secret = [] then Inl (ErrorObj ''secretOrPrivateKey must have a value'')
      else Inr (Signed secret \<lparr>payload_id = uid, iat = t, exp = t + expiresIn\<rparr>))"

section \<open>Cookie options (modules/auth/auth.utils)\<close>

datatype SameSite = Strict | Lax | NoneSite

record CookieOptions =
  domain :: "string option"
  expires :: "nat option"
  httpOnly :: bool
  maxAge :: "nat option"
  path :: "string option"
  secure :: bool
  sameSite :: "SameSite option"

definition cookieOptions_access :: CookieOptions where
  "cookieOptions_access =
     \<lparr>domain = None, expires = None, httpOnly = True, maxAge = None,
      path = Some ''/'', secure = True, sameSite = Some Strict\<rparr>"

definition cookieOptions_refresh :: CookieOptions where
  "cookieOptions_refresh =
     \<lparr>domain = None, expires = None, httpOnly = True, maxAge = None,
      path = Some ''/'', secure = True, sameSite = Some Strict\<rparr>"

section \<open>Process, request and mutable state\<close>

text \<open>
  What the code reads from its process: the three environment variables (an unset
  variable is the empty string: jsonwebtoken treats both alike, and neither equals
  \<^verbatim>\<open>"development"\<close>), the clock \<^verbatim>\<open>Date.now()\<close> in milliseconds,
  \<^verbatim>\<open>Date.prototype.toISOString\<close> and the value of \<^verbatim>\<open>crypto.randomUUID()\<close>.
  The clock has one value during a run of the middleware; jsonwebtoken reads it in
  whole seconds.
\<close>

record runtime =
  ACCESS_TOKEN_SECRET :: string
  REFRESH_TOKEN_SECRET :: string
  NODE_ENV :: string
  now :: nat
  toISOString :: "nat \<Rightarrow> string"
  randomUUID :: string

text \<open>The part of the incoming request that the middleware and the logger read.\<close>

record request =
  cookie :: "string \<Rightarrow> token option"
  header :: "string \<Rightarrow> string option"
  req_method :: string
  req_url :: string

datatype LogLevel = Info | Warn | Error | Debug

datatype LogData = Obj "(string \<times> string) list"

record RequestContext =
  requestId :: string
  ip :: string
  userAgent :: string
  httpMethod :: string
  url :: string
  startTime :: nat

record LogEntry =
  timestamp :: string
  level :: LogLevel
  message :: string
  data :: LogData
  meta :: RequestContext

text \<open>
  Everything the middleware can change: the context variables \<^verbatim>\<open>userId\<close> and
  \<^verbatim>\<open>requestContext\<close> of the Hono context, the \<^verbatim>\<open>Set-Cookie\<close> headers written to the
  response (in order), the lines printed to the console and the lines appended to files
  (path and line, in order). The last field belongs to the dispatcher of the framework:
  whether it has already run the rest of the chain for this request.
\<close>

record state =
  userId :: "string option"
  requestContext :: "RequestContext option"
  setCookies :: "(string \<times> token \<times> CookieOptions) list"
  console :: "(string \<times> LogData) list"
  files :: "(string \<times> LogEntry) list"
  dispatched :: bool

record Response =
  status :: nat
  body :: "(string \<times> string) list"

section \<open>The logger (middleware/logger)\<close>

text \<open>\<^verbatim>\<open>a || b\<close> on header values: an absent or empty header is falsy.\<close>

fun or_else :: "string option \<Rightarrow> string \<Rightarrow> string" where
  "or_else None d = d"
| "or_else (Some v) d = (if v = [] then d else v)"

definition getRequestContext :: "runtime \<Rightarrow> request \<Rightarrow> state \<Rightarrow> RequestContext \<times> state" where
  "getRequestContext rt req s =
     (case requestContext s of
        Some existing \<Rightarrow> (existing, s)
      | None \<Rightarrow>
          (let rc = \<lparr>requestId = randomUUID rt,
                     ip = or_else (header req ''x-forwarded-for'')
                            (or_else (header req ''x-real-ip'') ''unknown''),
                     userAgent = or_else (header req ''user-agent'') ''unknown'',
                     httpMethod = req_method req,
                     url = req_url req,
                     startTime = now rt\<rparr>
           in (rc, s\<lparr>requestContext := Some rc\<rparr>)))"

text \<open>
  \<^verbatim>\<open>formatLog\<close> stamps the entry again and serialises it; a line of a log file is
  modelled as the entry that \<^verbatim>\<open>JSON.stringify\<close> receives.
\<close>

definition formatLog :: "runtime \<Rightarrow> LogEntry \<Rightarrow> LogEntry" where
  "formatLog rt entry = entry\<lparr>timestamp := toISOString rt (now rt)\<rparr>"

fun level_name :: "LogLevel \<Rightarrow> string" where
  "level_name Info = ''info''"
| "level_name Warn = ''warn''"
| "level_name Error = ''error''"
| "level_name Debug = ''debug''"

fun level_upper :: "LogLevel \<Rightarrow> string" where
  "level_upper Info = ''INFO''"
| "level_upper Warn = ''WARN''"
| "level_upper Error = ''ERROR''"
| "level_upper Debug = ''DEBUG''"

text \<open>
  \<^verbatim>\<open>writeToFile\<close>: the file is \<^verbatim>\<open>logs/<today>-<level>.log\<close> below the working
  directory, where \<^verbatim>\<open>today\<close> is the ISO timestamp up to its first \<^verbatim>\<open>T\<close>;
  \<^verbatim>\<open>appendFileSync\<close> is taken to succeed.
\<close>

definition writeToFile :: "runtime \<Rightarrow> LogLevel \<Rightarrow> LogEntry \<Rightarrow> state \<Rightarrow> state" where
  "writeToFile rt lv content s =
     (let today = takeWhile (\<lambda>c. c \<noteq> CHR ''T'') (toISOString rt (now rt));
          filename = today @ ''-'' @ level_name lv @ ''.log'';
          filepath = ''logs/'' @ filename
      in s\<lparr>files := files s @ [(filepath, content)]\<rparr>)"

fun colors :: "LogLevel \<Rightarrow> string" where
  "colors Info = CHR 0x1B # ''[36m''"
| "colors Warn = CHR 0x1B # ''[33m''"
| "colors Error = CHR 0x1B # ''[31m''"
| "colors Debug = CHR 0x1B # ''[35m''"

definition logger_log ::
  "runtime \<Rightarrow> LogLevel \<Rightarrow> string \<Rightarrow> LogData \<Rightarrow> RequestContext \<Rightarrow> state \<Rightarrow> state" where
  "logger_log rt lv msg d m s =
     (let entry = \<lparr>timestamp = toISOString rt (now rt), level = lv, message = msg,
                   data = d, meta = m\<rparr>;
          formattedMessage = colors lv @ ''['' @ timestamp entry @ ''] '' @ level_upper lv
                             @ '': '' @ msg @ CHR 0x1B # ''[0m'';
          s1 = s\<lparr>console := console s @ [(formattedMessage, d)]\<rparr>;
          s2 = writeToFile rt lv (formatLog rt entry) s1
      in writeToFile rt Info (formatLog rt entry) s2)"

text \<open>
  The logging methods, as the middleware calls them: with an object as data and with
  the Hono context as third argument, so that the meta data is the request context.
\<close>

definition logger_info :: "runtime \<Rightarrow> request \<Rightarrow> string \<Rightarrow> LogData \<Rightarrow> state \<Rightarrow> state" where
  "logger_info rt req msg d s =
     (case getRequestContext rt req s of (m, s1) \<Rightarrow> logger_log rt Info msg d m s1)"

definition logger_warn :: "runtime \<Rightarrow> request \<Rightarrow> string \<Rightarrow> LogData \<Rightarrow> state \<Rightarrow> state" where
  "logger_warn rt req msg d s =
     (case getRequestContext rt req s of (m, s1) \<Rightarrow> logger_log rt Warn msg d m s1)"

definition logger_debug :: "runtime \<Rightarrow> request \<Rightarrow> string \<Rightarrow> LogData \<Rightarrow> state \<Rightarrow> state" where
  "logger_debug rt req msg d s =
     (if NODE_ENV rt = ''development''
      then (case getRequestContext rt req s of (m, s1) \<Rightarrow> logger_log rt Debug msg d m s1)
      else s)"

section \<open>The authentication middleware (middleware/auth)\<close>

text \<open>
  \<^verbatim>\<open>getCookie\<close> gives a string or \<^verbatim>\<open>undefined\<close>; the tests \<^verbatim>\<open>!accessToken\<close> and
  \<^verbatim>\<open>if (accessToken)\<close> take \<^verbatim>\<open>undefined\<close> and the empty string as false.
\<close>

fun truthy :: "token option \<Rightarrow> token option" where
  "truthy None = None"
| "truthy (Some (Opaque s)) = (if s = [] then None else Some (Opaque s))"
| "truthy (Some (Signed k p)) = Some (Signed k p)"

definition unauthorized :: Response where
  "unauthorized = \<lparr>status = 401, body = [(''error'', ''Unauthorized'')]\<rparr>"

definition setCookie :: "string \<Rightarrow> token \<Rightarrow> CookieOptions \<Rightarrow> state \<Rightarrow> state" where
  "setCookie name v opt s = s\<lparr>setCookies := setCookies s @ [(name, v, opt)]\<rparr>"

text \<open>
  The rest of the chain, \<^verbatim>\<open>next\<close>, is a parameter: it runs on the current state and
  either returns or throws, and leaves a state behind in both cases. A block of the
  middleware either returns from the middleware or falls through to the code below it.
\<close>

type_synonym handler = "state \<Rightarrow> thrown option \<times> state"

datatype flow = Returned state | Continue state

text \<open>
  The middleware is mounted with \<^verbatim>\<open>use\<close> on a Hono application, whose dispatcher is
  not part of the repository. It is modelled as it reaches the middleware: the
  \<^verbatim>\<open>next\<close> that the dispatcher passes runs the rest of the chain \<open>h\<close> once; an
  \<^verbatim>\<open>Error\<close> thrown there goes to the error handler of the application and
  \<^verbatim>\<open>next\<close> resolves, any other thrown value rejects \<^verbatim>\<open>next\<close>; every later call
  rejects with the error \<^verbatim>\<open>next() called multiple times\<close> and does not run the rest of
  the chain.
\<close>

definition dispatch :: "handler \<Rightarrow> handler" where
  "dispatch h s =
     (if dispatched s then (Some (ErrorObj ''next() called multiple times''), s)
      else (case h (s\<lparr>dispatched := True\<rparr>) of
              (None, s') \<Rightarrow> (None, s'\<lparr>dispatched := True\<rparr>)
            | (Some (ErrorObj m), s') \<Rightarrow> (None, s'\<lparr>dispatched := True\<rparr>)
            | (Some NonError, s') \<Rightarrow> (Some NonError, s'\<lparr>dispatched := True\<rparr>)))"

text \<open>The \<^verbatim>\<open>try\<close>/\<^verbatim>\<open>catch\<close> under \<^verbatim>\<open>if (accessToken)\<close>.\<close>

definition access_block :: "runtime \<Rightarrow> request \<Rightarrow> handler \<Rightarrow> token \<Rightarrow> state \<Rightarrow> flow" where
  "access_block rt req next accessToken s =
     (case jwt_verify accessToken (ACCESS_TOKEN_SECRET rt) (now rt div 1000) of
        Inl e \<Rightarrow>
          Continue (logger_debug rt req ''Access token invalid, attempting refresh''
                      (Obj [(''error'', error_message e)]) s)
      | Inr decoded \<Rightarrow>
          (let s1 = s\<lparr>userId := Some (payload_id decoded)\<rparr> in
           case next s1 of
             (None, s2) \<Rightarrow> Returned s2
           | (Some e, s2) \<Rightarrow>
               Continue (logger_debug rt req ''Access token invalid, attempting refresh''
                           (Obj [(''error'', error_message e)]) s2)))"

text \<open>The \<^verbatim>\<open>try\<close>/\<^verbatim>\<open>catch\<close> under \<^verbatim>\<open>if (refreshToken)\<close>.\<close>

definition refresh_block :: "runtime \<Rightarrow> request \<Rightarrow> handler \<Rightarrow> token \<Rightarrow> state \<Rightarrow> flow" where
  "refresh_block rt req next refreshToken s =
     (case jwt_verify refreshToken (REFRESH_TOKEN_SECRET rt) (now rt div 1000) of
        Inl e \<Rightarrow>
          Continue (logger_warn rt req ''Auth failed - Invalid refresh token''
                      (Obj [(''error'', error_message e)]) s)
      | Inr decoded \<Rightarrow>
          (case jwt_sign (payload_id decoded) (ACCESS_TOKEN_SECRET rt) 3600 (now rt div 1000) of
             Inl e \<Rightarrow>
               Continue (logger_warn rt req ''Auth failed - Invalid refresh token''
                           (Obj [(''error'', error_message e)]) s)
           | Inr newAccessToken \<Rightarrow>
               (let s1 = setCookie ''accessToken'' newAccessToken cookieOptions_access s;
                    s2 = s1\<lparr>userId := Some (payload_id decoded)\<rparr>;
                    s3 = logger_info rt req ''Token refreshed successfully''
                           (Obj [(''userId'', payload_id decoded)]) s2
                in case next s3 of
                     (None, s4) \<Rightarrow> Returned s4
                   | (Some e, s4) \<Rightarrow>
                       Continue (logger_warn rt req ''Auth failed - Invalid refresh token''
                                   (Obj [(''error'', error_message e)]) s4))))"

text \<open>
  The middleware returns the 401 response, or nothing after \<^verbatim>\<open>next\<close> has returned
  (the response is then the one of the rest of the chain).
\<close>

definition authMiddleware ::
  "runtime \<Rightarrow> request \<Rightarrow> handler \<Rightarrow> state \<Rightarrow> Response option \<times> state" where
  "authMiddleware rt req next s =
     (let accessToken = cookie req ''accessToken'';
          refreshToken = cookie req ''refreshToken''
      in if truthy accessToken = None \<and> truthy refreshToken = None
         then (Some unauthorized,
               logger_warn rt req ''Auth failed - No tokens provided'' (Obj []) s)
         else
           (case (case truthy accessToken of
                    Some tok \<Rightarrow> access_block rt req next tok s
                  | None \<Rightarrow> Continue s) of
              Returned s' \<Rightarrow> (None, s')
            | Continue s1 \<Rightarrow>
                (case (case truthy refreshToken of
                         Some tok \<Rightarrow> refresh_block rt req next tok s1
                       | None \<Rightarrow> Continue s1) of
                   Returned s' \<Rightarrow> (None, s')
                 | Continue s2 \<Rightarrow>
                     (Some unauthorized,
                      logger_warn rt req ''Auth failed - All tokens invalid'' (Obj []) s2))))"

section \<open>Concrete requests\<close>

text \<open>
  A process with two different secrets whose clock reads 5000 seconds, the state before
  the middleware runs, requests with given cookies, and tokens that expire at 7600
  seconds.
\<close>

definition rt0 :: runtime where
  "rt0 = \<lparr>ACCESS_TOKEN_SECRET = ''access-key'', REFRESH_TOKEN_SECRET = ''refresh-key'',
          NODE_ENV = ''production'', now = 5000000,
          toISOString = (\<lambda>n. ''2025-01-14T00:00:00.000Z''), randomUUID = ''uuid-1''\<rparr>"

definition state0 :: state where
  "state0 = \<lparr>userId = None, requestContext = None, setCookies = [], console = [],
             files = [], dispatched = False\<rparr>"

definition request_with :: "token option \<Rightarrow> token option \<Rightarrow> request" where
  "request_with a r =
     \<lparr>cookie = (\<lambda>n. if n = ''accessToken'' then a else if n = ''refreshToken'' then r else None),
      header = (\<lambda>n. None), req_method = ''GET'', req_url = ''http://localhost:3003/api/v1/profile''\<rparr>"

definition token_for :: "string \<Rightarrow> string \<Rightarrow> token" where
  "token_for secret uid = Signed secret \<lparr>payload_id = uid, iat = 4000, exp = 7600\<rparr>"

text \<open>
  Three handlers: one that returns, one that throws a value that is no \<^verbatim>\<open>Error\<close>
  (such a value passes through the dispatcher of the framework and rejects
  \<^verbatim>\<open>await next()\<close>), and one that prints a line to the console each time it runs
  and then throws such a value.
\<close>

definition returns :: handler where
  "returns s = (None, s)"

definition throws :: handler where
  "throws s = (Some NonError, s)"

definition announces_and_throws :: handler where
  "announces_and_throws s =
     (Some NonError, s\<lparr>console := console s @ [(''handler runs'', Obj [])]\<rparr>)"

section \<open>Properties of the logger\<close>

lemma getRequestContext_frame:
  "userId (snd (getRequestContext rt req s)) = userId s"
  "setCookies (snd (getRequestContext rt req s)) = setCookies s"
  "console (snd (getRequestContext rt req s)) = console s"
  "files (snd (getRequestContext rt req s)) = files s"
  "dispatched (snd (getRequestContext rt req s)) = dispatched s"
  by (simp_all add: getRequestContext_def Let_def split: option.split)

lemma logger_log_frame:
  "userId (logger_log rt lv msg d m s) = userId s"
  "setCookies (logger_log rt lv msg d m s) = setCookies s"
  "dispatched (logger_log rt lv msg d m s) = dispatched s"
  by (simp_all add: logger_log_def writeToFile_def Let_def)

lemma logger_warn_frame [simp]:
  "userId (logger_warn rt req msg d s) = userId s"
  "setCookies (logger_warn rt req msg d s) = setCookies s"
  "dispatched (logger_warn rt req msg d s) = dispatched s"
  using getRequestContext_frame [of rt req s]
  by (auto simp: logger_warn_def logger_log_frame split: prod.split)

lemma logger_info_frame [simp]:
  "userId (logger_info rt req msg d s) = userId s"
  "setCookies (logger_info rt req msg d s) = setCookies s"
  "dispatched (logger_info rt req msg d s) = dispatched s"
  using getRequestContext_frame [of rt req s]
  by (auto simp: logger_info_def logger_log_frame split: prod.split)

lemma logger_debug_frame [simp]:
  "userId (logger_debug rt req msg d s) = userId s"
  "setCookies (logger_debug rt req msg d s) = setCookies s"
  "dispatched (logger_debug rt req msg d s) = dispatched s"
  using getRequestContext_frame [of rt req s]
  by (auto simp: logger_debug_def logger_log_frame split: prod.split)


lemma logger_warn_cookie [simp]:
  "logger_warn rt (req\<lparr>cookie := c\<rparr>) msg d s = logger_warn rt req msg d s"
  by (simp add: logger_warn_def getRequestContext_def Let_def split: option.split)

section \<open>Properties of the two blocks\<close>

lemma access_block_fails:
  assumes "jwt_verify tok (ACCESS_TOKEN_SECRET rt) (now rt div 1000) = Inl e"
  shows "access_block rt req next tok s =
           Continue (logger_debug rt req ''Access token invalid, attempting refresh''
                      (Obj [(''error'', error_message e)]) s)"
  using assms by (simp add: access_block_def)

lemma refresh_block_fails:
  assumes "jwt_verify tok (REFRESH_TOKEN_SECRET rt) (now rt div 1000) = Inl e"
  shows "refresh_block rt req next tok s =
           Continue (logger_warn rt req ''Auth failed - Invalid refresh token''
                      (Obj [(''error'', error_message e)]) s)"
  using assms by (simp add: refresh_block_def)

lemma refresh_block_verified:
  assumes v: "jwt_verify tok (REFRESH_TOKEN_SECRET rt) (now rt div 1000) = Inr q"
    and k: "ACCESS_TOKEN_SECRET rt \<noteq> []"
  shows "refresh_block rt req next tok s =
     (case next (logger_info rt req ''Token refreshed successfully''
                   (Obj [(''userId'', payload_id q)])
                   ((setCookie ''accessToken''
                       (Signed (ACCESS_TOKEN_SECRET rt)
                          \<lparr>payload_id = payload_id q, iat = now rt div 1000,
                           exp = now rt div 1000 + 3600\<rparr>)
                       cookieOptions_access s)\<lparr>userId := Some (payload_id q)\<rparr>)) of
        (None, s4) \<Rightarrow> Returned s4
      | (Some e, s4) \<Rightarrow>
          Continue (logger_warn rt req ''Auth failed - Invalid refresh token''
                      (Obj [(''error'', error_message e)]) s4))"
  using v k by (simp add: refresh_block_def jwt_sign_def Let_def)

lemma refresh_block_unsigned:
  assumes v: "jwt_verify tok (REFRESH_TOKEN_SECRET rt) (now rt div 1000) = Inr q"
    and k: "ACCESS_TOKEN_SECRET rt = []"
  shows "refresh_block rt req next tok s =
          Continue (logger_warn rt req ''Auth failed - Invalid refresh token''
                      (Obj [(''error'', ''secretOrPrivateKey must have a value'')]) s)"
  using v k by (simp add: refresh_block_def jwt_sign_def)

text \<open>
  The access block writes no cookie of its own: if the rest of the chain writes none,
  the cookies are the same after the block.
\<close>

lemma access_block_setCookies:
  assumes frame: "\<And>x. setCookies (snd (next x)) = setCookies x"
  shows "access_block rt req next tok s = Returned s' \<Longrightarrow> setCookies s' = setCookies s"
    and "access_block rt req next tok s = Continue s' \<Longrightarrow> setCookies s' = setCookies s"
proof -
  have n: "setCookies b = setCookies x" if "next x = (a, b)" for x a b
    using frame [of x] that by simp
  show "access_block rt req next tok s = Returned s' \<Longrightarrow> setCookies s' = setCookies s"
    by (auto simp: access_block_def Let_def dest!: n split: sum.splits prod.splits option.splits)
  show "access_block rt req next tok s = Continue s' \<Longrightarrow> setCookies s' = setCookies s"
    by (auto simp: access_block_def Let_def dest!: n split: sum.splits prod.splits option.splits)
qed

lemma refresh_block_setCookies:
  assumes frame: "\<And>x. setCookies (snd (next x)) = setCookies x"
    and rb: "refresh_block rt req next tok s = Returned s' \<or>
             refresh_block rt req next tok s = Continue s'"
  shows "setCookies s' = setCookies s \<or>
         (\<exists>q. jwt_verify tok (REFRESH_TOKEN_SECRET rt) (now rt div 1000) = Inr q \<and>
           setCookies s' = setCookies s @
             [(''accessToken'',
               Signed (ACCESS_TOKEN_SECRET rt)
                 \<lparr>payload_id = payload_id q, iat = now rt div 1000,
                  exp = now rt div 1000 + 3600\<rparr>,
               cookieOptions_access)])"
proof (cases "jwt_verify tok (REFRESH_TOKEN_SECRET rt) (now rt div 1000)")
  case (Inl e)
  then show ?thesis using rb by (auto simp: refresh_block_fails)
next
  case (Inr q)
  have n: "setCookies b = setCookies x" if "next x = (a, b)" for x a b
    using frame [of x] that by simp
  show ?thesis
  proof (cases "ACCESS_TOKEN_SECRET rt = []")
    case True
    then show ?thesis using rb Inr by (auto simp: refresh_block_unsigned)
  next
    case False
    show ?thesis
      using rb
      by (auto simp: refresh_block_verified [OF Inr False] setCookie_def Inr
          dest!: n split: prod.splits option.splits)
  qed
qed

section \<open>Properties of the middleware\<close>

text \<open>Every response the middleware itself returns is the same 401 response.\<close>

lemma authMiddleware_response:
  assumes "fst (authMiddleware rt req next s) = Some r"
  shows "r = unauthorized"
  using assms
  by (auto simp: authMiddleware_def Let_def split: if_splits option.splits flow.splits)


text \<open>
  A valid access token and a handler that returns: the middleware passes, and its state
  is the one the handler leaves, started from the state with \<^verbatim>\<open>userId\<close> set.
\<close>

lemma access_valid_handler_returns:
  assumes a: "truthy (cookie req ''accessToken'') = Some tokA"
    and va: "jwt_verify tokA (ACCESS_TOKEN_SECRET rt) (now rt div 1000) = Inr p"
    and ret: "next (s\<lparr>userId := Some (payload_id p)\<rparr>) = (None, s1)"
  shows "authMiddleware rt req next s = (None, s1)"
  using a va ret by (simp add: authMiddleware_def access_block_def)

text \<open>
  The cookies of a run, when the rest of the chain writes none: unchanged, or extended
  by one \<^verbatim>\<open>accessToken\<close> cookie minted from a verified refresh token.
\<close>

lemma authMiddleware_setCookies:
  assumes frame: "\<And>x. setCookies (snd (next x)) = setCookies x"
  shows "setCookies (snd (authMiddleware rt req next s)) = setCookies s \<or>
         (\<exists>tok q. truthy (cookie req ''refreshToken'') = Some tok \<and>
           jwt_verify tok (REFRESH_TOKEN_SECRET rt) (now rt div 1000) = Inr q \<and>
           setCookies (snd (authMiddleware rt req next s)) = setCookies s @
             [(''accessToken'',
               Signed (ACCESS_TOKEN_SECRET rt)
                 \<lparr>payload_id = payload_id q, iat = now rt div 1000,
                  exp = now rt div 1000 + 3600\<rparr>,
               cookieOptions_access)])"
proof -
  let ?A = "case truthy (cookie req ''accessToken'') of
              Some tok \<Rightarrow> access_block rt req next tok s | None \<Rightarrow> Continue s"
  show ?thesis
  proof (cases ?A)
    case (Returned s')
    then have "setCookies s' = setCookies s"
      using access_block_setCookies(1) [OF frame]
      by (auto split: option.splits)
    moreover have "authMiddleware rt req next s = (None, s')"
      using Returned by (auto simp: authMiddleware_def Let_def split: option.splits)
    ultimately show ?thesis by simp
  next
    case (Continue s1)
    then have s1: "setCookies s1 = setCookies s"
      using access_block_setCookies(2) [OF frame]
      by (auto split: option.splits)
    show ?thesis
    proof (cases "truthy (cookie req ''refreshToken'')")
      case None
      then show ?thesis
        using Continue s1 by (auto simp: authMiddleware_def Let_def split: option.splits)
    next
      case (Some tok)
      have am: "authMiddleware rt req next s =
            (case refresh_block rt req next tok s1 of
               Returned s' \<Rightarrow> (None, s')
             | Continue s2 \<Rightarrow> (Some unauthorized,
                  logger_warn rt req ''Auth failed - All tokens invalid'' (Obj []) s2))"
        using Continue Some by (simp add: authMiddleware_def Let_def)
      obtain s' where rb: "refresh_block rt req next tok s1 = Returned s' \<or>
                           refresh_block rt req next tok s1 = Continue s'"
        by (cases "refresh_block rt req next tok s1") auto
      have fin: "setCookies (snd (authMiddleware rt req next s)) = setCookies s'"
        using rb am by auto
      show ?thesis
        using refresh_block_setCookies [OF frame rb] Some fin s1 by auto
    qed
  qed
qed

text \<open>
  A valid access token and a call of \<^verbatim>\<open>next\<close> that rejects, with a valid refresh token
  present: the run is the outcome of a second call of \<^verbatim>\<open>next\<close>, on the state with the
  new cookie.
\<close>

lemma handler_exception_second_next:
  assumes a: "truthy (cookie req ''accessToken'') = Some tokA"
    and va: "jwt_verify tokA (ACCESS_TOKEN_SECRET rt) (now rt div 1000) = Inr p"
    and thr: "next (s\<lparr>userId := Some (payload_id p)\<rparr>) = (Some e, s1)"
    and r: "truthy (cookie req ''refreshToken'') = Some tokR"
    and vr: "jwt_verify tokR (REFRESH_TOKEN_SECRET rt) (now rt div 1000) = Inr q"
  shows "authMiddleware rt req next s =
           (case next (logger_info rt req ''Token refreshed successfully''
                         (Obj [(''userId'', payload_id q)])
                         ((setCookie ''accessToken''
                             (Signed (ACCESS_TOKEN_SECRET rt)
                                \<lparr>payload_id = payload_id q, iat = now rt div 1000,
                                 exp = now rt div 1000 + 3600\<rparr>)
                             cookieOptions_access
                             (logger_debug rt req ''Access token invalid, attempting refresh''
                                (Obj [(''error'', error_message e)]) s1))
                            \<lparr>userId := Some (payload_id q)\<rparr>)) of
              (None, s4) \<Rightarrow> (None, s4)
            | (Some e', s4) \<Rightarrow>
                (Some unauthorized,
                 logger_warn rt req ''Auth failed - All tokens invalid'' (Obj [])
                   (logger_warn rt req ''Auth failed - Invalid refresh token''
                      (Obj [(''error'', error_message e')]) s4)))"
proof -
  have k: "ACCESS_TOKEN_SECRET rt \<noteq> []"
    using va by (cases tokA) (auto split: if_splits)
  have ab: "access_block rt req next tokA s =
              Continue (logger_debug rt req ''Access token invalid, attempting refresh''
                          (Obj [(''error'', error_message e)]) s1)"
    using va thr by (simp add: access_block_def)
  show ?thesis
    using a r ab
    by (simp add: authMiddleware_def Let_def refresh_block_verified [OF vr k]
        split: prod.split option.split)
qed

text \<open>The dispatcher: a second call never runs the rest of the chain.\<close>

lemma dispatch_again:
  "dispatched s \<Longrightarrow> dispatch h s = (Some (ErrorObj ''next() called multiple times''), s)"
  by (simp add: dispatch_def)

text \<open>
  The dispatcher: an \<^verbatim>\<open>Error\<close> thrown by the rest of the chain does not reach the
  middleware; with a valid access token the middleware passes.
\<close>

lemma handler_error_swallowed:
  assumes a: "truthy (cookie req ''accessToken'') = Some tokA"
    and va: "jwt_verify tokA (ACCESS_TOKEN_SECRET rt) (now rt div 1000) = Inr p"
    and nd: "\<not> dispatched s"
    and thr: "h (s\<lparr>userId := Some (payload_id p), dispatched := True\<rparr>) = (Some (ErrorObj m), s1)"
  shows "authMiddleware rt req (dispatch h) s = (None, s1\<lparr>dispatched := True\<rparr>)"
proof -
  have "dispatch h (s\<lparr>userId := Some (payload_id p)\<rparr>) = (None, s1\<lparr>dispatched := True\<rparr>)"
    using nd thr by (simp add: dispatch_def)
  then show ?thesis
    using a va by (simp add: authMiddleware_def access_block_def)
qed

lemmas run_defs = authMiddleware_def access_block_def refresh_block_def jwt_sign_def
  setCookie_def request_with_def token_for_def rt0_def Let_def


section \<open>The claims\<close>

text \<open>
  C1: a request whose access token verifies is authenticated as the subject of that
  token, the handler is invoked, no cookie is written and the refresh token is not
  consulted. The code does not do this when the handler throws: \<^verbatim>\<open>await next()\<close> stands
  inside the \<^verbatim>\<open>try\<close> whose \<^verbatim>\<open>catch\<close> is meant for an invalid access token. With a valid
  access token for \<open>u1\<close>, a valid refresh token for \<open>u2\<close> and a handler that throws, the
  middleware verifies the refresh token, mints an access cookie for \<open>u2\<close>, sets
  \<^verbatim>\<open>userId\<close> to \<open>u2\<close> and ends in the 401 response; with no refresh token and a handler
  that throws, the valid access token ends in the 401 response as well.
\<close>

theorem valid_access_handler_throws_consults_refresh:
  "jwt_verify (token_for ''access-key'' ''u1'') (ACCESS_TOKEN_SECRET rt0) (now rt0 div 1000)
     = Inr \<lparr>payload_id = ''u1'', iat = 4000, exp = 7600\<rparr>
   \<and> fst (authMiddleware rt0
            (request_with (Some (token_for ''access-key'' ''u1''))
                          (Some (token_for ''refresh-key'' ''u2'')))
            throws state0) = Some unauthorized
   \<and> userId (snd (authMiddleware rt0
            (request_with (Some (token_for ''access-key'' ''u1''))
                          (Some (token_for ''refresh-key'' ''u2'')))
            throws state0)) = Some ''u2''
   \<and> setCookies (snd (authMiddleware rt0
            (request_with (Some (token_for ''access-key'' ''u1''))
                          (Some (token_for ''refresh-key'' ''u2'')))
            throws state0))
       = [(''accessToken'',
           Signed ''access-key'' \<lparr>payload_id = ''u2'', iat = 5000, exp = 8600\<rparr>,
           cookieOptions_access)]
   \<and> fst (authMiddleware rt0
            (request_with (Some (token_for ''access-key'' ''u1'')) None)
            throws state0) = Some unauthorized"
  by (simp add: run_defs throws_def state0_def)



text \<open>
  C3: when no presented token verifies (each cookie is absent, empty or fails
  verification), the middleware returns the 401 response, writes no cookie, sets no
  \<^verbatim>\<open>userId\<close> and never calls the handler.
\<close>

theorem no_valid_token_unauthorized:
  assumes a: "\<And>tok. truthy (cookie req ''accessToken'') = Some tok \<Longrightarrow>
                 isl (jwt_verify tok (ACCESS_TOKEN_SECRET rt) (now rt div 1000))"
    and r: "\<And>tok. truthy (cookie req ''refreshToken'') = Some tok \<Longrightarrow>
                 isl (jwt_verify tok (REFRESH_TOKEN_SECRET rt) (now rt div 1000))"
  shows "fst (authMiddleware rt req next s) = Some unauthorized
         \<and> status unauthorized = 401
         \<and> setCookies (snd (authMiddleware rt req next s)) = setCookies s
         \<and> userId (snd (authMiddleware rt req next s)) = userId s
         \<and> authMiddleware rt req next' s = authMiddleware rt req next s"
proof -
  have A: "case truthy (cookie req ''accessToken'') of None \<Rightarrow> True
           | Some tok \<Rightarrow> \<exists>e. jwt_verify tok (ACCESS_TOKEN_SECRET rt) (now rt div 1000) = Inl e"
    using a by (auto split: option.split simp: isl_def)
  have R: "case truthy (cookie req ''refreshToken'') of None \<Rightarrow> True
           | Some tok \<Rightarrow> \<exists>e. jwt_verify tok (REFRESH_TOKEN_SECRET rt) (now rt div 1000) = Inl e"
    using r by (auto split: option.split simp: isl_def)
  show ?thesis
    using A R
    by (auto simp: authMiddleware_def access_block_fails refresh_block_fails unauthorized_def
        split: option.splits)
qed

theorem no_valid_token_unauthorized_witness:
  "truthy (cookie (request_with (Some (Opaque ''garbage'')) None) ''refreshToken'') = None
   \<and> isl (jwt_verify (Opaque ''garbage'') (ACCESS_TOKEN_SECRET rt0) (now rt0 div 1000))
   \<and> fst (authMiddleware rt0 (request_with (Some (Opaque ''garbage'')) None) returns state0)
       = Some unauthorized
   \<and> setCookies (snd (authMiddleware rt0 (request_with (Some (Opaque ''garbage'')) None)
                        returns state0)) = []
   \<and> userId (snd (authMiddleware rt0 (request_with (Some (Opaque ''garbage'')) None)
                    returns state0)) = None"
  using no_valid_token_unauthorized
          [of "request_with (Some (Opaque ''garbage'')) None" rt0 returns state0 returns]
  by (simp add: request_with_def state0_def)


text \<open>
  C4: any two runs of the middleware that end in a response of its own return the same
  response, whatever the cause of the failure: status 401 and the body
  \<^verbatim>\<open>{ error: "Unauthorized" }\<close>.
\<close>

theorem failure_responses_identical:
  assumes "fst (authMiddleware rt req next s) = Some r"
    and "fst (authMiddleware rt' req' next' s') = Some r'"
  shows "r = r' \<and> status r = 401 \<and> body r = [(''error'', ''Unauthorized'')]"
  using authMiddleware_response [OF assms(1)] authMiddleware_response [OF assms(2)]
  by (simp add: unauthorized_def)

theorem failure_responses_identical_witness:
  "fst (authMiddleware rt0 (request_with None None) returns state0) = Some unauthorized
   \<and> fst (authMiddleware rt0
            (request_with (Some (Opaque ''garbage'')) (Some (token_for ''other-key'' ''u1'')))
            returns state0) = Some unauthorized
   \<and> status unauthorized = 401 \<and> body unauthorized = [(''error'', ''Unauthorized'')]"
proof -
  have 1: "fst (authMiddleware rt0 (request_with None None) returns state0) = Some unauthorized"
    by (simp add: authMiddleware_def request_with_def)
  have 2: "fst (authMiddleware rt0
            (request_with (Some (Opaque ''garbage'')) (Some (token_for ''other-key'' ''u1'')))
            returns state0) = Some unauthorized"
    by (simp add: run_defs)
  show ?thesis using failure_responses_identical [OF 1 2] 1 2 by simp
qed

text \<open>
  C5: when the access secret and the refresh secret differ, a token signed with one of
  them fails verification against the other at every time; presented as the cookie of
  the other kind it makes the block of that kind fall through with
  \<^verbatim>\<open>invalid signature\<close>, and presented alone it ends in the 401 response.
\<close>

theorem wrong_key_token_rejected:
  assumes distinct: "ACCESS_TOKEN_SECRET rt \<noteq> REFRESH_TOKEN_SECRET rt"
    and tokA: "jwt_sign uidA (ACCESS_TOKEN_SECRET rt) lifeA tA = Inr tokA"
    and tokR: "jwt_sign uidR (REFRESH_TOKEN_SECRET rt) lifeR tR = Inr tokR"
  shows "isl (jwt_verify tokA (REFRESH_TOKEN_SECRET rt) t)
       \<and> isl (jwt_verify tokR (ACCESS_TOKEN_SECRET rt) t)
       \<and> access_block rt req next tokR s =
           Continue (logger_debug rt req ''Access token invalid, attempting refresh''
                       (Obj [(''error'', ''invalid signature'')]) s)
       \<and> refresh_block rt req next tokA s =
           Continue (logger_warn rt req ''Auth failed - Invalid refresh token''
                       (Obj [(''error'', ''invalid signature'')]) s)
       \<and> (cookie req ''accessToken'' = Some tokR \<and> truthy (cookie req ''refreshToken'') = None
            \<longrightarrow> fst (authMiddleware rt req next s) = Some unauthorized)
       \<and> (cookie req ''refreshToken'' = Some tokA \<and> truthy (cookie req ''accessToken'') = None
            \<longrightarrow> fst (authMiddleware rt req next s) = Some unauthorized)"
proof -
  have kA: "ACCESS_TOKEN_SECRET rt \<noteq> []" and kR: "REFRESH_TOKEN_SECRET rt \<noteq> []"
    using tokA tokR by (auto simp: jwt_sign_def split: if_splits)
  obtain pA where A: "tokA = Signed (ACCESS_TOKEN_SECRET rt) pA"
    using tokA kA by (auto simp: jwt_sign_def)
  obtain pR where R: "tokR = Signed (REFRESH_TOKEN_SECRET rt) pR"
    using tokR kR by (auto simp: jwt_sign_def)
  have vA: "jwt_verify tokA (REFRESH_TOKEN_SECRET rt) u = Inl (ErrorObj ''invalid signature'')"
    for u
    using A kR distinct by simp
  have vR: "jwt_verify tokR (ACCESS_TOKEN_SECRET rt) u = Inl (ErrorObj ''invalid signature'')"
    for u
    using R kA distinct by auto
  have bA: "access_block rt req next tokR s =
           Continue (logger_debug rt req ''Access token invalid, attempting refresh''
                       (Obj [(''error'', ''invalid signature'')]) s)"
    by (simp add: access_block_fails [OF vR])
  have bR: "refresh_block rt req next tokA s' =
           Continue (logger_warn rt req ''Auth failed - Invalid refresh token''
                       (Obj [(''error'', ''invalid signature'')]) s')" for s'
    by (simp add: refresh_block_fails [OF vA])
  have mA: "fst (authMiddleware rt req next s) = Some unauthorized"
    if "cookie req ''accessToken'' = Some tokR" "truthy (cookie req ''refreshToken'') = None"
    using that bA by (simp add: authMiddleware_def R)
  have mR: "fst (authMiddleware rt req next s) = Some unauthorized"
    if "cookie req ''refreshToken'' = Some tokA" "truthy (cookie req ''accessToken'') = None"
    using that bR by (simp add: authMiddleware_def A)
  show ?thesis using vA vR bA bR mA mR by simp
qed

theorem wrong_key_token_rejected_witness:
  "ACCESS_TOKEN_SECRET rt0 \<noteq> REFRESH_TOKEN_SECRET rt0
   \<and> jwt_sign ''u1'' (ACCESS_TOKEN_SECRET rt0) 3600 4000 = Inr (token_for ''access-key'' ''u1'')
   \<and> jwt_sign ''u1'' (REFRESH_TOKEN_SECRET rt0) 3600 4000 = Inr (token_for ''refresh-key'' ''u1'')
   \<and> isl (jwt_verify (token_for ''access-key'' ''u1'') (REFRESH_TOKEN_SECRET rt0) 5000)
   \<and> isl (jwt_verify (token_for ''refresh-key'' ''u1'') (ACCESS_TOKEN_SECRET rt0) 5000)
   \<and> fst (authMiddleware rt0 (request_with (Some (token_for ''refresh-key'' ''u1'')) None)
            returns state0) = Some unauthorized
   \<and> fst (authMiddleware rt0 (request_with None (Some (token_for ''access-key'' ''u1'')))
            returns state0) = Some unauthorized"
proof -
  have d: "ACCESS_TOKEN_SECRET rt0 \<noteq> REFRESH_TOKEN_SECRET rt0"
    by (simp add: rt0_def)
  have a: "jwt_sign ''u1'' (ACCESS_TOKEN_SECRET rt0) 3600 4000
             = Inr (token_for ''access-key'' ''u1'')"
    by (simp add: rt0_def jwt_sign_def token_for_def)
  have r: "jwt_sign ''u1'' (REFRESH_TOKEN_SECRET rt0) 3600 4000
             = Inr (token_for ''refresh-key'' ''u1'')"
    by (simp add: rt0_def jwt_sign_def token_for_def)
  show ?thesis
    using d a r
      wrong_key_token_rejected
        [OF d a r, of 5000 "request_with (Some (token_for ''refresh-key'' ''u1'')) None"
           returns state0]
      wrong_key_token_rejected
        [OF d a r, of 5000 "request_with None (Some (token_for ''access-key'' ''u1''))"
           returns state0]
    by (simp add: request_with_def token_for_def)
qed

text \<open>
  C6: the middleware never writes a \<^verbatim>\<open>refreshToken\<close> cookie and writes at most one
  \<^verbatim>\<open>accessToken\<close> cookie, only after the refresh token has verified: when the rest of
  the chain writes no cookie, the cookies after a run are those before it, or those
  followed by one \<^verbatim>\<open>accessToken\<close> cookie. The middleware does change other state: its
  logger appends lines to the log files on disk, as the run of a request without
  cookies shows.
\<close>

theorem cookie_writes_bounded:
  assumes frame: "\<And>x. setCookies (snd (next x)) = setCookies x"
  shows "setCookies (snd (authMiddleware rt req next s)) = setCookies s \<or>
         (\<exists>tok q v. truthy (cookie req ''refreshToken'') = Some tok \<and>
           jwt_verify tok (REFRESH_TOKEN_SECRET rt) (now rt div 1000) = Inr q \<and>
           setCookies (snd (authMiddleware rt req next s)) =
             setCookies s @ [(''accessToken'', v, cookieOptions_access)])"
  using authMiddleware_setCookies [OF frame, of rt req s] by blast

theorem cookie_writes_bounded_witness:
  "(\<forall>x. setCookies (snd (returns x)) = setCookies x)
   \<and> setCookies (snd (authMiddleware rt0
        (request_with None (Some (token_for ''refresh-key'' ''u1''))) returns state0))
       = setCookies state0 @
           [(''accessToken'',
             Signed ''access-key'' \<lparr>payload_id = ''u1'', iat = 5000, exp = 8600\<rparr>,
             cookieOptions_access)]
   \<and> setCookies (snd (authMiddleware rt0
        (request_with (Some (token_for ''access-key'' ''u1''))
                      (Some (token_for ''refresh-key'' ''u1''))) returns state0))
       = setCookies state0"
proof -
  have f: "setCookies (snd (returns x)) = setCookies x" for x
    by (simp add: returns_def)
  have 1: "setCookies (snd (authMiddleware rt0
        (request_with None (Some (token_for ''refresh-key'' ''u1''))) returns state0))
       = setCookies state0 @
           [(''accessToken'',
             Signed ''access-key'' \<lparr>payload_id = ''u1'', iat = 5000, exp = 8600\<rparr>,
             cookieOptions_access)]"
    using cookie_writes_bounded
            [OF f, of rt0 "request_with None (Some (token_for ''refresh-key'' ''u1''))" state0]
    by (simp add: run_defs returns_def state0_def)
  have 2: "setCookies (snd (authMiddleware rt0
        (request_with (Some (token_for ''access-key'' ''u1''))
                      (Some (token_for ''refresh-key'' ''u1''))) returns state0))
       = setCookies state0"
    using cookie_writes_bounded
            [OF f, of rt0 "request_with (Some (token_for ''access-key'' ''u1''))
                      (Some (token_for ''refresh-key'' ''u1''))" state0]
    by (simp add: run_defs returns_def state0_def)
  show ?thesis using f 1 2 by simp
qed

theorem middleware_appends_log_files:
  "files (snd (authMiddleware rt0 (request_with None None) returns state0)) \<noteq> files state0"
  by (simp add: authMiddleware_def request_with_def logger_warn_def getRequestContext_def
      logger_log_def writeToFile_def state0_def Let_def)


text \<open>
  C7: the same valid access token, processed in two requests, gives the same subject
  and no cookie in either. The code does not do this when the handler of one of the
  requests throws: with the same valid access and refresh tokens for \<open>u1\<close>, the run whose
  handler returns passes and writes no cookie, and the run whose handler throws mints
  an \<^verbatim>\<open>accessToken\<close> cookie from the refresh token and ends in the 401 response.
\<close>

theorem same_access_token_handler_throws_mints_cookie:
  "fst (authMiddleware rt0
            (request_with (Some (token_for ''access-key'' ''u1''))
                          (Some (token_for ''refresh-key'' ''u1'')))
            returns state0) = None
   \<and> setCookies (snd (authMiddleware rt0
            (request_with (Some (token_for ''access-key'' ''u1''))
                          (Some (token_for ''refresh-key'' ''u1'')))
            returns state0)) = []
   \<and> fst (authMiddleware rt0
            (request_with (Some (token_for ''access-key'' ''u1''))
                          (Some (token_for ''refresh-key'' ''u1'')))
            throws state0) = Some unauthorized
   \<and> setCookies (snd (authMiddleware rt0
            (request_with (Some (token_for ''access-key'' ''u1''))
                          (Some (token_for ''refresh-key'' ''u1'')))
            throws state0))
       = [(''accessToken'',
           Signed ''access-key'' \<lparr>payload_id = ''u1'', iat = 5000, exp = 8600\<rparr>,
           cookieOptions_access)]"
  by (simp add: run_defs returns_def throws_def state0_def)

text \<open>
  C8: every cookie the middleware writes is an \<^verbatim>\<open>accessToken\<close> cookie with the options
  \<^verbatim>\<open>cookieOptions.access\<close>, the ones login and register use: path \<^verbatim>\<open>/\<close>, httpOnly,
  secure, sameSite strict, and no other attribute.
\<close>

theorem renewed_cookie_attributes:
  assumes frame: "\<And>x. setCookies (snd (next x)) = setCookies x"
    and written: "(name, v, opt) \<in> set (drop (length (setCookies s))
                                      (setCookies (snd (authMiddleware rt req next s))))"
  shows "name = ''accessToken'' \<and> opt = cookieOptions_access
       \<and> path opt = Some ''/'' \<and> httpOnly opt \<and> secure opt \<and> sameSite opt = Some Strict
       \<and> domain opt = None \<and> expires opt = None \<and> maxAge opt = None"
  using authMiddleware_setCookies [OF frame, of rt req s] written
  by (auto simp: cookieOptions_access_def)

theorem renewed_cookie_attributes_witness:
  "(\<forall>x. setCookies (snd (returns x)) = setCookies x)
   \<and> (''accessToken'',
        Signed ''access-key'' \<lparr>payload_id = ''u1'', iat = 5000, exp = 8600\<rparr>,
        cookieOptions_access)
       \<in> set (drop (length (setCookies state0))
                 (setCookies (snd (authMiddleware rt0
                    (request_with None (Some (token_for ''refresh-key'' ''u1'')))
                    returns state0))))
   \<and> path cookieOptions_access = Some ''/'' \<and> httpOnly cookieOptions_access
   \<and> secure cookieOptions_access \<and> sameSite cookieOptions_access = Some Strict
   \<and> domain cookieOptions_access = None \<and> expires cookieOptions_access = None
   \<and> maxAge cookieOptions_access = None"
proof -
  have f: "setCookies (snd (returns x)) = setCookies x" for x
    by (simp add: returns_def)
  have w: "(''accessToken'',
        Signed ''access-key'' \<lparr>payload_id = ''u1'', iat = 5000, exp = 8600\<rparr>,
        cookieOptions_access)
       \<in> set (drop (length (setCookies state0))
                 (setCookies (snd (authMiddleware rt0
                    (request_with None (Some (token_for ''refresh-key'' ''u1'')))
                    returns state0))))"
    by (simp add: run_defs returns_def state0_def)
  show ?thesis
    using f w renewed_cookie_attributes [OF f w] by simp
qed

text \<open>
  C9: when the access token verifies and the handler throws a value that is no
  \<^verbatim>\<open>Error\<close>, so that \<^verbatim>\<open>next\<close> rejects, and a valid refresh token is present, the
  middleware takes the exception as an invalid access token (the debug line), verifies
  the refresh token, writes a new \<^verbatim>\<open>accessToken\<close> cookie for the subject of the refresh
  token, sets \<^verbatim>\<open>userId\<close> to that subject and calls \<^verbatim>\<open>next\<close> a second time. The
  dispatcher rejects the second call with \<^verbatim>\<open>next() called multiple times\<close> and does not
  run the handler again: the run ends in the 401 response, with the new cookie set. The
  handler is thus not invoked a second time, as the run with a handler that prints a
  line whenever it runs shows.
\<close>

theorem handler_exception_refresh_then_next_rejected:
  assumes a: "truthy (cookie req ''accessToken'') = Some tokA"
    and va: "jwt_verify tokA (ACCESS_TOKEN_SECRET rt) (now rt div 1000) = Inr p"
    and nd: "\<not> dispatched s"
    and thr: "h (s\<lparr>userId := Some (payload_id p), dispatched := True\<rparr>) = (Some NonError, s1)"
    and r: "truthy (cookie req ''refreshToken'') = Some tokR"
    and vr: "jwt_verify tokR (REFRESH_TOKEN_SECRET rt) (now rt div 1000) = Inr q"
  shows "authMiddleware rt req (dispatch h) s =
           (Some unauthorized,
            logger_warn rt req ''Auth failed - All tokens invalid'' (Obj [])
              (logger_warn rt req ''Auth failed - Invalid refresh token''
                 (Obj [(''error'', ''next() called multiple times'')])
                 (logger_info rt req ''Token refreshed successfully''
                    (Obj [(''userId'', payload_id q)])
                    ((setCookie ''accessToken''
                        (Signed (ACCESS_TOKEN_SECRET rt)
                           \<lparr>payload_id = payload_id q, iat = now rt div 1000,
                            exp = now rt div 1000 + 3600\<rparr>)
                        cookieOptions_access
                        (logger_debug rt req ''Access token invalid, attempting refresh''
                           (Obj [(''error'', ''Unknown error'')])
                           (s1\<lparr>dispatched := True\<rparr>)))
                       \<lparr>userId := Some (payload_id q)\<rparr>))))
       \<and> setCookies (snd (authMiddleware rt req (dispatch h) s)) =
           setCookies s1 @
             [(''accessToken'',
               Signed (ACCESS_TOKEN_SECRET rt)
                 \<lparr>payload_id = payload_id q, iat = now rt div 1000,
                  exp = now rt div 1000 + 3600\<rparr>,
               cookieOptions_access)]
       \<and> userId (snd (authMiddleware rt req (dispatch h) s)) = Some (payload_id q)"
proof -
  let ?s3 = "logger_info rt req ''Token refreshed successfully''
                    (Obj [(''userId'', payload_id q)])
                    ((setCookie ''accessToken''
                        (Signed (ACCESS_TOKEN_SECRET rt)
                           \<lparr>payload_id = payload_id q, iat = now rt div 1000,
                            exp = now rt div 1000 + 3600\<rparr>)
                        cookieOptions_access
                        (logger_debug rt req ''Access token invalid, attempting refresh''
                           (Obj [(''error'', error_message NonError)])
                           (s1\<lparr>dispatched := True\<rparr>)))
                       \<lparr>userId := Some (payload_id q)\<rparr>)"
  have first: "dispatch h (s\<lparr>userId := Some (payload_id p)\<rparr>)
                 = (Some NonError, s1\<lparr>dispatched := True\<rparr>)"
    using nd thr by (simp add: dispatch_def)
  have d3: "dispatched ?s3"
    by (simp add: setCookie_def)
  have second: "dispatch h ?s3 = (Some (ErrorObj ''next() called multiple times''), ?s3)"
    using d3 by (rule dispatch_again)
  have run: "authMiddleware rt req (dispatch h) s =
               (Some unauthorized,
                logger_warn rt req ''Auth failed - All tokens invalid'' (Obj [])
                  (logger_warn rt req ''Auth failed - Invalid refresh token''
                     (Obj [(''error'', ''next() called multiple times'')]) ?s3))"
    using handler_exception_second_next
            [of req tokA rt p "dispatch h" s NonError "s1\<lparr>dispatched := True\<rparr>" tokR q,
             OF a va first r vr] second
    by simp
  have c: "setCookies ?s3 = setCookies s1 @
             [(''accessToken'',
               Signed (ACCESS_TOKEN_SECRET rt)
                 \<lparr>payload_id = payload_id q, iat = now rt div 1000,
                  exp = now rt div 1000 + 3600\<rparr>,
               cookieOptions_access)]"
    by (simp add: setCookie_def)
  have u: "userId ?s3 = Some (payload_id q)"
    by simp
  show ?thesis
    using run c u by simp
qed

theorem handler_exception_refresh_then_next_rejected_witness:
  "truthy (cookie (request_with (Some (token_for ''access-key'' ''u1''))
                                (Some (token_for ''refresh-key'' ''u2''))) ''accessToken'')
     = Some (token_for ''access-key'' ''u1'')
   \<and> jwt_verify (token_for ''access-key'' ''u1'') (ACCESS_TOKEN_SECRET rt0) (now rt0 div 1000)
       = Inr \<lparr>payload_id = ''u1'', iat = 4000, exp = 7600\<rparr>
   \<and> \<not> dispatched state0
   \<and> throws (state0\<lparr>userId := Some ''u1'', dispatched := True\<rparr>)
       = (Some NonError, state0\<lparr>userId := Some ''u1'', dispatched := True\<rparr>)
   \<and> truthy (cookie (request_with (Some (token_for ''access-key'' ''u1''))
                                (Some (token_for ''refresh-key'' ''u2''))) ''refreshToken'')
       = Some (token_for ''refresh-key'' ''u2'')
   \<and> jwt_verify (token_for ''refresh-key'' ''u2'') (REFRESH_TOKEN_SECRET rt0) (now rt0 div 1000)
       = Inr \<lparr>payload_id = ''u2'', iat = 4000, exp = 7600\<rparr>
   \<and> fst (authMiddleware rt0
        (request_with (Some (token_for ''access-key'' ''u1''))
                      (Some (token_for ''refresh-key'' ''u2'')))
        (dispatch throws) state0) = Some unauthorized
   \<and> setCookies (snd (authMiddleware rt0
        (request_with (Some (token_for ''access-key'' ''u1''))
                      (Some (token_for ''refresh-key'' ''u2'')))
        (dispatch throws) state0))
       = [(''accessToken'',
           Signed ''access-key'' \<lparr>payload_id = ''u2'', iat = 5000, exp = 8600\<rparr>,
           cookieOptions_access)]
   \<and> userId (snd (authMiddleware rt0
        (request_with (Some (token_for ''access-key'' ''u1''))
                      (Some (token_for ''refresh-key'' ''u2'')))
        (dispatch throws) state0)) = Some ''u2''"
proof -
  let ?req = "request_with (Some (token_for ''access-key'' ''u1''))
                           (Some (token_for ''refresh-key'' ''u2''))"
  have a: "truthy (cookie ?req ''accessToken'') = Some (token_for ''access-key'' ''u1'')"
    by (simp add: request_with_def token_for_def)
  have va: "jwt_verify (token_for ''access-key'' ''u1'') (ACCESS_TOKEN_SECRET rt0)
              (now rt0 div 1000) = Inr \<lparr>payload_id = ''u1'', iat = 4000, exp = 7600\<rparr>"
    by (simp add: token_for_def rt0_def)
  have nd: "\<not> dispatched state0"
    by (simp add: state0_def)
  have thr: "throws (state0\<lparr>userId := Some (payload_id
                \<lparr>payload_id = ''u1'', iat = 4000, exp = 7600\<rparr>), dispatched := True\<rparr>)
               = (Some NonError, state0\<lparr>userId := Some ''u1'', dispatched := True\<rparr>)"
    by (simp add: throws_def)
  have r: "truthy (cookie ?req ''refreshToken'') = Some (token_for ''refresh-key'' ''u2'')"
    by (simp add: request_with_def token_for_def)
  have vr: "jwt_verify (token_for ''refresh-key'' ''u2'') (REFRESH_TOKEN_SECRET rt0)
              (now rt0 div 1000) = Inr \<lparr>payload_id = ''u2'', iat = 4000, exp = 7600\<rparr>"
    by (simp add: token_for_def rt0_def)
  note run = handler_exception_refresh_then_next_rejected
           [of ?req "token_for ''access-key'' ''u1''" rt0
            "\<lparr>payload_id = ''u1'', iat = 4000, exp = 7600\<rparr>" state0 throws
            "state0\<lparr>userId := Some ''u1'', dispatched := True\<rparr>"
            "token_for ''refresh-key'' ''u2''"
            "\<lparr>payload_id = ''u2'', iat = 4000, exp = 7600\<rparr>", OF a va nd thr r vr]
  have f: "fst (authMiddleware rt0 ?req (dispatch throws) state0) = Some unauthorized"
    using run [THEN conjunct1] by simp
  have c: "setCookies (snd (authMiddleware rt0 ?req (dispatch throws) state0))
       = [(''accessToken'',
           Signed ''access-key'' \<lparr>payload_id = ''u2'', iat = 5000, exp = 8600\<rparr>,
           cookieOptions_access)]"
    using run [THEN conjunct2, THEN conjunct1] by (simp add: rt0_def state0_def)
  have u: "userId (snd (authMiddleware rt0 ?req (dispatch throws) state0)) = Some ''u2''"
    using run [THEN conjunct2, THEN conjunct2] by simp
  have thr': "throws (state0\<lparr>userId := Some ''u1'', dispatched := True\<rparr>)
               = (Some NonError, state0\<lparr>userId := Some ''u1'', dispatched := True\<rparr>)"
    by (simp add: throws_def)
  show ?thesis
    using a va nd thr' r vr f c u by simp
qed

theorem handler_runs_once_under_dispatcher:
  "jwt_verify (token_for ''access-key'' ''u1'') (ACCESS_TOKEN_SECRET rt0) (now rt0 div 1000)
     = Inr \<lparr>payload_id = ''u1'', iat = 4000, exp = 7600\<rparr>
   \<and> jwt_verify (token_for ''refresh-key'' ''u2'') (REFRESH_TOKEN_SECRET rt0) (now rt0 div 1000)
     = Inr \<lparr>payload_id = ''u2'', iat = 4000, exp = 7600\<rparr>
   \<and> fst (announces_and_throws (state0\<lparr>userId := Some ''u1''\<rparr>)) = Some NonError
   \<and> fst (authMiddleware rt0
            (request_with (Some (token_for ''access-key'' ''u1''))
                          (Some (token_for ''refresh-key'' ''u2'')))
            (dispatch announces_and_throws) state0) = Some unauthorized
   \<and> count_list (map fst (console (snd (authMiddleware rt0
            (request_with (Some (token_for ''access-key'' ''u1''))
                          (Some (token_for ''refresh-key'' ''u2'')))
            (dispatch announces_and_throws) state0)))) ''handler runs'' = 1"
  by (simp add: run_defs dispatch_def announces_and_throws_def state0_def
      logger_info_def logger_warn_def logger_debug_def logger_log_def writeToFile_def
      getRequestContext_def)

text \<open>
  C10: a request whose two cookies are both the empty string is rejected on the
  no-tokens branch: the 401 response and the single warning
  \<^verbatim>\<open>Auth failed - No tokens provided\<close>, exactly as for a request without cookies, with
  no verification and no call of the handler.
\<close>

theorem empty_cookies_rejected_as_absent:
  assumes "cookie req ''accessToken'' = Some (Opaque [])"
    and "cookie req ''refreshToken'' = Some (Opaque [])"
  shows "authMiddleware rt req next s =
           (Some unauthorized,
            logger_warn rt req ''Auth failed - No tokens provided'' (Obj []) s)
         \<and> authMiddleware rt req next s = authMiddleware rt (req\<lparr>cookie := \<lambda>n. None\<rparr>) next s"
  using assms by (simp add: authMiddleware_def)

theorem empty_cookies_rejected_as_absent_witness:
  "cookie (request_with (Some (Opaque [])) (Some (Opaque []))) ''accessToken'' = Some (Opaque [])
   \<and> cookie (request_with (Some (Opaque [])) (Some (Opaque []))) ''refreshToken'' = Some (Opaque [])
   \<and> authMiddleware rt0 (request_with (Some (Opaque [])) (Some (Opaque []))) returns state0 =
           (Some unauthorized,
            logger_warn rt0 (request_with (Some (Opaque [])) (Some (Opaque [])))
              ''Auth failed - No tokens provided'' (Obj []) state0)"
  using empty_cookies_rejected_as_absent
          [of "request_with (Some (Opaque [])) (Some (Opaque []))" rt0 returns state0]
  by (simp add: request_with_def)

end
